theory Spec2Isabelle
  imports Complex_Main "HOL-Library.Sublist" "HOL-Library.Word"
begin

unbundle bit_operations_syntax

section \<open>Python values used by the code review agent\<close>

text \<open>
  The development embeds \<^verbatim>\<open>code_review_agent.py\<close>. A Python \<^verbatim>\<open>str\<close> is a
  \<^typ>\<open>string\<close>; text outside ASCII is carried as its UTF-8 bytes, so every marker the
  program searches for (all of them ASCII) is found at the same places as in Python, and
  \<^verbatim>\<open>str.encode()\<close> is the identity. Whitespace and case mapping cover the ASCII
  range. An exception is a value of \<open>exn\<close>; a function that can raise returns
  \<open>exn + 'a\<close> with \<open>Inl\<close> for the exception.
\<close>

datatype exn = ValueError string | IndexError string | KeyError string

fun str_exn :: "exn \<Rightarrow> string" where
  "str_exn (ValueError m) = m"
| "str_exn (IndexError m) = m"
| "str_exn (KeyError m) = [CHR 0x27] @ m @ [CHR 0x27]"

subsection \<open>String methods\<close>

text \<open>\<^verbatim>\<open>str.isspace\<close> on one ASCII character: tab, line feed, vertical tab, form feed,
  carriage return, the four separators 0x1C..0x1F and the space.\<close>

definition isspace :: "char \<Rightarrow> bool" where
  "isspace c = (c = CHR 0x09 \<or> c = CHR 0x0A \<or> c = CHR 0x0B \<or> c = CHR 0x0C \<or> c = CHR 0x0D
     \<or> c = CHR 0x1C \<or> c = CHR 0x1D \<or> c = CHR 0x1E \<or> c = CHR 0x1F \<or> c = CHR 0x20)"

definition strip :: "string \<Rightarrow> string" where
  "strip s = rev (dropWhile isspace (rev (dropWhile isspace s)))"

text \<open>\<^verbatim>\<open>s.lstrip(chars)\<close> removes leading characters that belong to the set \<open>chars\<close>;
  it does not remove a prefix.\<close>

definition lstrip_chars :: "string \<Rightarrow> string \<Rightarrow> string" where
  "lstrip_chars s chars = dropWhile (\<lambda>c. c \<in> set chars) s"

definition startswith :: "string \<Rightarrow> string \<Rightarrow> bool" where
  "startswith s p = prefix p s"

text \<open>\<^verbatim>\<open>sub in s\<close>.\<close>

fun contains :: "string \<Rightarrow> string \<Rightarrow> bool" where
  "contains [] sub = (sub = [])"
| "contains (c # cs) sub = (prefix sub (c # cs) \<or> contains cs sub)"

text \<open>\<^verbatim>\<open>s.split(sep)\<close> for a separator of one character.\<close>

fun split_char :: "string \<Rightarrow> char \<Rightarrow> string list" where
  "split_char [] sep = [[]]"
| "split_char (c # cs) sep =
     (if c = sep then [] # split_char cs sep
      else (case split_char cs sep of
              [] \<Rightarrow> [[c]]
            | h # t \<Rightarrow> (c # h) # t))"

text \<open>\<^verbatim>\<open>s.split(sep, 1)\<close> for a separator that is not empty (the program passes
  constants): the text before the first occurrence and the text after it, or \<open>[s]\<close> when
  \<open>sep\<close> does not occur.\<close>

fun split_once :: "string \<Rightarrow> string \<Rightarrow> string list" where
  "split_once [] sep = [[]]"
| "split_once (c # cs) sep =
     (if prefix sep (c # cs) then [[], drop (length sep) (c # cs)]
      else (case split_once cs sep of
              [] \<Rightarrow> [[c]]
            | h # t \<Rightarrow> (c # h) # t))"

text \<open>\<^verbatim>\<open>s.split()\<close>: the maximal runs of characters that are not whitespace.\<close>

function split_whitespace :: "string \<Rightarrow> string list" where
  "split_whitespace [] = []"
| "split_whitespace (c # cs) =
     (if isspace c then split_whitespace cs
      else takeWhile (\<lambda>x. \<not> isspace x) (c # cs)
             # split_whitespace (dropWhile (\<lambda>x. \<not> isspace x) cs))"
  by pat_completeness auto
termination
  by (relation "measure length") (auto simp: le_imp_less_Suc length_dropWhile_le)

definition lower_char :: "char \<Rightarrow> char" where
  "lower_char c =
     (let n = (of_char c :: nat) in if 65 \<le> n \<and> n \<le> 90 then char_of (n + 32) else c)"

definition lower :: "string \<Rightarrow> string" where
  "lower s = map lower_char s"

text \<open>\<^verbatim>\<open>str(n)\<close> for an integer.\<close>

fun str_nat :: "nat \<Rightarrow> string" where
  "str_nat n =
     (if n < 10 then [char_of (48 + n)] else str_nat (n div 10) @ [char_of (48 + n mod 10)])"

definition str_int :: "int \<Rightarrow> string" where
  "str_int i = (if i < 0 then CHR ''-'' # str_nat (nat (- i)) else str_nat (nat i))"

text \<open>\<^verbatim>\<open>xs[i]\<close> raises \<^verbatim>\<open>IndexError\<close> out of range.\<close>

definition index :: "'a list \<Rightarrow> nat \<Rightarrow> exn + 'a" where
  "index xs i = (if i < length xs then Inr (xs ! i) else Inl (IndexError ''list index out of range''))"

subsection \<open>Paths\<close>

text \<open>\<^verbatim>\<open>os.path.basename\<close>, \<^verbatim>\<open>os.path.splitext\<close> and \<^verbatim>\<open>os.path.join\<close> of
  \<^verbatim>\<open>posixpath\<close>. The extension starts at the last dot of the base name, and leading
  dots of the base name never start an extension.\<close>

definition basename :: "string \<Rightarrow> string" where
  "basename p = rev (takeWhile (\<lambda>c. c \<noteq> CHR ''/'') (rev p))"

definition splitext :: "string \<Rightarrow> string \<times> string" where
  "splitext p =
     (let rest = dropWhile (\<lambda>c. c = CHR ''.'') (basename p);
          ext = (if CHR ''.'' \<in> set rest
                 then CHR ''.'' # rev (takeWhile (\<lambda>c. c \<noteq> CHR ''.'') (rev rest))
                 else [])
      in (take (length p - length ext) p, ext))"

definition join :: "string \<Rightarrow> string \<Rightarrow> string" where
  "join a b =
     (if startswith b ''/'' then b
      else if a = [] \<or> last a = CHR ''/'' then a @ b
      else a @ ''/'' @ b)"

subsection \<open>Text outside ASCII\<close>

text \<open>The source's Chinese literals are written by their code points; \<open>utf8\<close> gives
  their UTF-8 bytes.\<close>

definition utf8_char :: "nat \<Rightarrow> string" where
  "utf8_char n =
     (if n < 0x80 then [char_of n]
      else if n < 0x800 then [char_of (0xC0 + n div 64), char_of (0x80 + n mod 64)]
      else if n < 0x10000 then
        [char_of (0xE0 + n div 4096), char_of (0x80 + (n div 64) mod 64),
         char_of (0x80 + n mod 64)]
      else
        [char_of (0xF0 + n div 262144), char_of (0x80 + (n div 4096) mod 64),
         char_of (0x80 + (n div 64) mod 64), char_of (0x80 + n mod 64)])"

definition utf8 :: "nat list \<Rightarrow> string" where
  "utf8 cps = concat (map utf8_char cps)"

subsection \<open>Formatted string literals\<close>

text \<open>
  In an f-string every \<^verbatim>\<open>{expr:spec}\<close> is a replacement field: Python evaluates
  \<^verbatim>\<open>format(expr, spec)\<close>, and a brace meant as text has to be doubled. For a
  \<^verbatim>\<open>str\<close> value \<open>format_str\<close> follows CPython's parser of the format specification
  \<^verbatim>\<open>[[fill]align][sign][z][#][0][width][grouping][.precision][type]\<close>: an empty
  specification returns the value; when more than one character is left where the type
  is expected, \<^verbatim>\<open>format\<close> raises \<^verbatim>\<open>ValueError\<close>; sign, \<^verbatim>\<open>z\<close>, \<^verbatim>\<open>#\<close>,
  \<^verbatim>\<open>=\<close>, grouping and every type but \<^verbatim>\<open>s\<close> are refused for strings. Width and
  precision count the characters of the model.
\<close>

definition is_alignment_token :: "char \<Rightarrow> bool" where
  "is_alignment_token c = (c = CHR ''<'' \<or> c = CHR ''>'' \<or> c = CHR ''='' \<or> c = CHR ''^'')"

definition is_sign_element :: "char \<Rightarrow> bool" where
  "is_sign_element c = (c = CHR '' '' \<or> c = CHR ''+'' \<or> c = CHR ''-'')"

definition isdigit :: "char \<Rightarrow> bool" where
  "isdigit c = (48 \<le> (of_char c :: nat) \<and> (of_char c :: nat) \<le> 57)"

definition get_integer :: "string \<Rightarrow> nat option \<times> string" where
  "get_integer s =
     (let ds = takeWhile isdigit s
      in (if ds = [] then None
          else Some (foldl (\<lambda>a d. 10 * a + (of_char d - 48)) 0 ds),
          dropWhile isdigit s))"

text \<open>One optional character of the specification: whether it is there, and the rest.\<close>

definition accept :: "(char \<Rightarrow> bool) \<Rightarrow> string \<Rightarrow> char option \<times> string" where
  "accept P s = (case s of [] \<Rightarrow> (None, s) | c # r \<Rightarrow> if P c then (Some c, r) else (None, s))"

definition invalid_format_specifier :: "string \<Rightarrow> exn" where
  "invalid_format_specifier spec =
     ValueError (''Invalid format specifier '' @ [CHR 0x27] @ spec @ [CHR 0x27]
                 @ '' for object of type '' @ [CHR 0x27] @ ''str'' @ [CHR 0x27])"

definition pad :: "string \<Rightarrow> nat \<Rightarrow> char \<Rightarrow> char \<Rightarrow> string" where
  "pad s width fill align =
     (let n = width - length s in
      if align = CHR ''>'' then replicate n fill @ s
      else if align = CHR ''^'' then replicate (n div 2) fill @ s @ replicate (n - n div 2) fill
      else s @ replicate n fill)"

definition format_str :: "string \<Rightarrow> string \<Rightarrow> exn + string" where
  "format_str v spec =
     (if spec = [] then Inr v
      else
       let (fill, align, s1) =
             (if 2 \<le> length spec \<and> is_alignment_token (spec ! 1)
                then (Some (spec ! 0), Some (spec ! 1), drop 2 spec)
              else if is_alignment_token (spec ! 0) then (None, Some (spec ! 0), drop 1 spec)
              else (None, None, spec));
           (sign, s2) = accept is_sign_element s1;
           (z, s3) = accept (\<lambda>c. c = CHR ''z'') s2;
           (alternate, s4) = accept (\<lambda>c. c = CHR ''#'') s3;
           (zero, s5) = (if fill = None then accept (\<lambda>c. c = CHR ''0'') s4 else (None, s4));
           (width, s6) = get_integer s5;
           (comma, s7) = accept (\<lambda>c. c = CHR '','') s6;
           (underscore, s8) = accept (\<lambda>c. c = CHR ''_'') s7
       in
        if underscore \<noteq> None \<and> (comma \<noteq> None \<or> startswith s8 '','')
          then Inl (ValueError ''Cannot specify both ',' and '_'.'')
        else
         let (dot, s9) = accept (\<lambda>c. c = CHR ''.'') s8;
             (precision, s10) = (if dot = None then (None, s9) else get_integer s9)
         in
          if dot \<noteq> None \<and> precision = None
            then Inl (ValueError ''Format specifier missing precision'')
          else if 1 < length s10 then Inl (invalid_format_specifier spec)
          else
           let type = (case s10 of [] \<Rightarrow> CHR ''s'' | c # _ \<Rightarrow> c) in
            if comma \<noteq> None \<or> underscore \<noteq> None
              then Inl (ValueError (''Cannot specify '' @ [CHR 0x27]
                         @ (if comma \<noteq> None then '','' else ''_'') @ [CHR 0x27]
                         @ '' with '' @ [CHR 0x27, type, CHR 0x27] @ ''.''))
            else if type \<noteq> CHR ''s''
              then Inl (ValueError (''Unknown format code '' @ [CHR 0x27, type, CHR 0x27]
                         @ '' for object of type '' @ [CHR 0x27] @ ''str'' @ [CHR 0x27]))
            else if sign = Some CHR '' ''
              then Inl (ValueError ''Space not allowed in string format specifier'')
            else if sign \<noteq> None
              then Inl (ValueError ''Sign not allowed in string format specifier'')
            else if z \<noteq> None
              then Inl (ValueError
                         ''Negative zero coercion (z) not allowed in string format specifier'')
            else if alternate \<noteq> None
              then Inl (ValueError ''Alternate form (#) not allowed in string format specifier'')
            else if align = Some CHR ''=''
              then Inl (ValueError ([CHR 0x27] @ ''='' @ [CHR 0x27]
                         @ '' alignment not allowed in string format specifier''))
            else
             let cut = (case precision of None \<Rightarrow> v | Some p \<Rightarrow> take p v);
                 fill_char = (case fill of Some c \<Rightarrow> c
                              | None \<Rightarrow> if zero \<noteq> None then CHR ''0'' else CHR '' '')
             in Inr (case width of
                       None \<Rightarrow> cut
                     | Some w \<Rightarrow> pad cut w fill_char (case align of None \<Rightarrow> CHR ''<'' | Some a \<Rightarrow> a)))"

text \<open>An f-string is a sequence of literal texts and replacement fields, evaluated from
  left to right; the first field whose formatting raises ends the evaluation. A field
  holds its value, already a \<^verbatim>\<open>str\<close>, and its format specification.\<close>

datatype fpart = Lit string | Field string string

fun fstring :: "fpart list \<Rightarrow> exn + string" where
  "fstring [] = Inr []"
| "fstring (Lit s # ps) = (case fstring ps of Inl e \<Rightarrow> Inl e | Inr r \<Rightarrow> Inr (s @ r))"
| "fstring (Field v spec # ps) =
     (case format_str v spec of
        Inl e \<Rightarrow> Inl e
      | Inr t \<Rightarrow> (case fstring ps of Inl e \<Rightarrow> Inl e | Inr r \<Rightarrow> Inr (t @ r)))"

section \<open>The cache key\<close>

subsection \<open>MD5\<close>

text \<open>
  \<^verbatim>\<open>hashlib.md5(data).hexdigest()\<close>, after RFC 1321: the message is padded with the
  byte 0x80, zero bytes up to 56 modulo 64 and its length in bits as 64 bits, little
  endian; each block of 64 bytes updates four words of 32 bits in 64 steps; the digest is
  the four words, little endian, and the hex digest writes each of its 16 bytes with two
  lower-case hexadecimal digits.
\<close>

definition md5_K :: "32 word list" where
  "md5_K =
     [0xd76aa478, 0xe8c7b756, 0x242070db, 0xc1bdceee,
      0xf57c0faf, 0x4787c62a, 0xa8304613, 0xfd469501,
      0x698098d8, 0x8b44f7af, 0xffff5bb1, 0x895cd7be,
      0x6b901122, 0xfd987193, 0xa679438e, 0x49b40821,
      0xf61e2562, 0xc040b340, 0x265e5a51, 0xe9b6c7aa,
      0xd62f105d, 0x02441453, 0xd8a1e681, 0xe7d3fbc8,
      0x21e1cde6, 0xc33707d6, 0xf4d50d87, 0x455a14ed,
      0xa9e3e905, 0xfcefa3f8, 0x676f02d9, 0x8d2a4c8a,
      0xfffa3942, 0x8771f681, 0x6d9d6122, 0xfde5380c,
      0xa4beea44, 0x4bdecfa9, 0xf6bb4b60, 0xbebfbc70,
      0x289b7ec6, 0xeaa127fa, 0xd4ef3085, 0x04881d05,
      0xd9d4d039, 0xe6db99e5, 0x1fa27cf8, 0xc4ac5665,
      0xf4292244, 0x432aff97, 0xab9423a7, 0xfc93a039,
      0x655b59c3, 0x8f0ccc92, 0xffeff47d, 0x85845dd1,
      0x6fa87e4f, 0xfe2ce6e0, 0xa3014314, 0x4e0811a1,
      0xf7537e82, 0xbd3af235, 0x2ad7d2bb, 0xeb86d391]"

definition md5_s :: "nat list" where
  "md5_s =
     [7, 12, 17, 22, 7, 12, 17, 22, 7, 12, 17, 22, 7, 12, 17, 22,
      5, 9, 14, 20, 5, 9, 14, 20, 5, 9, 14, 20, 5, 9, 14, 20,
      4, 11, 16, 23, 4, 11, 16, 23, 4, 11, 16, 23, 4, 11, 16, 23,
      6, 10, 15, 21, 6, 10, 15, 21, 6, 10, 15, 21, 6, 10, 15, 21]"

definition le_bytes :: "nat \<Rightarrow> 'a::len word \<Rightarrow> 8 word list" where
  "le_bytes k w = map (\<lambda>i. ucast (drop_bit (8 * i) w)) [0..<k]"

definition word_of_le :: "8 word list \<Rightarrow> 32 word" where
  "word_of_le bs = foldr (\<lambda>b w. ucast b + push_bit 8 w) bs 0"

definition md5_pad :: "8 word list \<Rightarrow> 8 word list" where
  "md5_pad m =
     m @ [0x80] @ replicate ((119 - length m mod 64) mod 64) 0 @ le_bytes 8 (word_of_nat (8 * length m) :: 64 word)"

definition md5_step ::
  "32 word list \<Rightarrow> 32 word \<times> 32 word \<times> 32 word \<times> 32 word \<Rightarrow> nat
     \<Rightarrow> 32 word \<times> 32 word \<times> 32 word \<times> 32 word" where
  "md5_step M st i =
     (case st of (A, B, C, D) \<Rightarrow>
        let (F, g) =
              (if i < 16 then ((B AND C) OR (NOT B AND D), i)
               else if i < 32 then ((D AND B) OR (NOT D AND C), (5 * i + 1) mod 16)
               else if i < 48 then (B XOR C XOR D, (3 * i + 5) mod 16)
               else (C XOR (B OR NOT D), (7 * i) mod 16))
        in (D, B + word_rotl (md5_s ! i) (F + A + md5_K ! i + M ! g), B, C))"

definition md5_block ::
  "32 word \<times> 32 word \<times> 32 word \<times> 32 word \<Rightarrow> 8 word list
     \<Rightarrow> 32 word \<times> 32 word \<times> 32 word \<times> 32 word" where
  "md5_block st block =
     (let M = map (\<lambda>j. word_of_le (take 4 (drop (4 * j) block))) [0..<16]
      in case (st, foldl (md5_step M) st [0..<64]) of
           ((a0, b0, c0, d0), (A, B, C, D)) \<Rightarrow> (a0 + A, b0 + B, c0 + C, d0 + D))"

definition md5 :: "8 word list \<Rightarrow> 8 word list" where
  "md5 m =
     (let p = md5_pad m;
          blocks = map (\<lambda>j. take 64 (drop (64 * j) p)) [0..<length p div 64]
      in case foldl md5_block (0x67452301, 0xefcdab89, 0x98badcfe, 0x10325476) blocks of
           (a, b, c, d) \<Rightarrow> concat (map (le_bytes 4) [a, b, c, d]))"

definition hex_digit :: "nat \<Rightarrow> char" where
  "hex_digit n = ''0123456789abcdef'' ! (n mod 16)"

definition hexdigest :: "8 word list \<Rightarrow> string" where
  "hexdigest bs = concat (map (\<lambda>b. [hex_digit (unat b div 16), hex_digit (unat b)]) bs)"

definition md5_hexdigest :: "string \<Rightarrow> string" where
  "md5_hexdigest s = hexdigest (md5 (map of_char s))"

subsection \<open>\<^verbatim>\<open>CodeReviewer._get_cache_key\<close>\<close>

definition get_cache_key :: "string \<Rightarrow> string \<Rightarrow> string" where
  "get_cache_key content prompt = md5_hexdigest (content @ ''\<newline>---\<newline>'' @ prompt)"

section \<open>\<^verbatim>\<open>CodeReviewConfig\<close>\<close>

text \<open>
  A Python \<^verbatim>\<open>float\<close> is a real number, an infinity or NaN; \<open>float_le\<close> is its
  \<^verbatim>\<open><=\<close>, false whenever NaN takes part.
\<close>

datatype pyfloat = Finite real | PosInf | NegInf | NaN

fun float_le :: "pyfloat \<Rightarrow> pyfloat \<Rightarrow> bool" where
  "float_le NaN y = False"
| "float_le x NaN = False"
| "float_le NegInf y = True"
| "float_le x PosInf = True"
| "float_le (Finite a) (Finite b) = (a \<le> b)"
| "float_le x y = False"

record CodeReviewConfig =
  model :: string
  temperature :: pyfloat
  max_tokens :: int
  api_base :: "string option"
  retry_count :: int
  retry_delay :: int
  concurrent_workers :: int
  cache_dir :: string

definition msg_temperature :: string where
  "msg_temperature =
     utf8 [0x6E29, 0x5EA6, 0x5FC5, 0x987B, 0x5728] @ ''0'' @ utf8 [0x5230] @ ''2'' @
       utf8 [0x4E4B, 0x95F4]"

definition msg_retry_count :: string where
  "msg_retry_count =
     utf8 [0x91CD, 0x8BD5, 0x6B21, 0x6570, 0x4E0D, 0x80FD, 0x4E3A, 0x8D1F, 0x6570]"

definition msg_concurrent_workers :: string where
  "msg_concurrent_workers =
     utf8 [0x5E76, 0x53D1, 0x5DE5, 0x4F5C, 0x7EBF, 0x7A0B, 0x81F3, 0x5C11, 0x4E3A] @
       ''1''"

definition validate_temperature :: "pyfloat \<Rightarrow> exn + pyfloat" where
  "validate_temperature v =
     (if \<not> (float_le (Finite 0) v \<and> float_le v (Finite 2)) then Inl (ValueError msg_temperature)
      else Inr v)"

definition validate_retry_count :: "int \<Rightarrow> exn + int" where
  "validate_retry_count v = (if v < 0 then Inl (ValueError msg_retry_count) else Inr v)"

definition validate_concurrent_workers :: "int \<Rightarrow> exn + int" where
  "validate_concurrent_workers v =
     (if v < 1 then Inl (ValueError msg_concurrent_workers) else Inr v)"

text \<open>
  The constructor of the pydantic model: the validators of the fields run in the order of
  the fields, on the values given; the object is built from what they return when none
  raises, and otherwise the constructor raises one \<^verbatim>\<open>ValidationError\<close> that lists every
  field whose validator raised. The argument holds the values given for the fields.
\<close>

datatype validation_error = ValidationError "(string \<times> exn) list"

definition field_errors :: "string \<Rightarrow> exn + 'a \<Rightarrow> (string \<times> exn) list" where
  "field_errors name r = (case r of Inl e \<Rightarrow> [(name, e)] | Inr _ \<Rightarrow> [])"

definition new_CodeReviewConfig :: "CodeReviewConfig \<Rightarrow> validation_error + CodeReviewConfig" where
  "new_CodeReviewConfig given =
     (let t = validate_temperature (temperature given);
          r = validate_retry_count (retry_count given);
          k = validate_concurrent_workers (concurrent_workers given)
      in case (t, r, k) of
           (Inr t', Inr r', Inr k') \<Rightarrow>
             Inr (given\<lparr>temperature := t', retry_count := r', concurrent_workers := k'\<rparr>)
         | _ \<Rightarrow>
             Inl (ValidationError (field_errors ''temperature'' t @ field_errors ''retry_count'' r
                    @ field_errors ''concurrent_workers'' k)))"

section \<open>Results, files, cache and service\<close>

text \<open>
  A review result is a Python \<^verbatim>\<open>dict\<close> of JSON values: an association list whose
  keys are distinct. \<open>has_key d k\<close> is \<^verbatim>\<open>k in d\<close>, \<open>dict_set d k v\<close> is
  \<^verbatim>\<open>d[k] = v\<close>, and a dictionary is true when it is not empty.
\<close>

datatype json =
    JNull | JBool bool | JInt int | JFloat real | JStr string
  | JList "json list" | JDict "(string \<times> json) list"

type_synonym payload = "(string \<times> json) list"

definition has_key :: "(string \<times> 'v) list \<Rightarrow> string \<Rightarrow> bool" where
  "has_key d k = (map_of d k \<noteq> None)"

fun dict_set :: "(string \<times> 'v) list \<Rightarrow> string \<Rightarrow> 'v \<Rightarrow> (string \<times> 'v) list" where
  "dict_set [] k v = [(k, v)]"
| "dict_set ((k', v') # d) k v = (if k' = k then (k, v) # d else (k', v') # dict_set d k v)"

definition error_payload :: "string \<Rightarrow> payload" where
  "error_payload msg = [(''error'', JStr msg)]"

text \<open>
  The world outside the program. A source file is missing, not UTF-8, unreadable for
  another reason (with the text of the exception), or readable with its text and its size
  in bytes. A directory is the list of its entries, in the order \<^verbatim>\<open>os.walk\<close> meets
  them; a subdirectory that the walk does not enter (a link, or one it cannot list) is a
  directory with no entries. A cache file holds a result or cannot be read as JSON; \<open>cache_writable\<close> tells
  whether writing a cache file succeeds. The service answers the request number \<open>n\<close> with
  a body that \<^verbatim>\<open>json.loads\<close> reads as a JSON object, a body that it rejects
  (\<^verbatim>\<open>JSONDecodeError\<close>), \<^verbatim>\<open>openai.RateLimitError\<close>, another \<^verbatim>\<open>openai.APIError\<close>,
  or any other exception (with its text). \<open>calls\<close> counts the requests made, \<open>sleeps\<close>
  records the calls of \<^verbatim>\<open>time.sleep\<close> that returned, \<open>now\<close> is what
  \<^verbatim>\<open>datetime.now().isoformat()\<close> gives. Logging is left out.
\<close>

datatype file_state = Missing | NotUtf8 | Unreadable string | Readable string nat

datatype entry = File string | Dir string "entry list"

datatype cache_entry = Stored payload | Corrupt

datatype outcome =
    Completion payload | Malformed string | RateLimitError | APIError string | OtherError string

type_synonym messages = "(string \<times> string) list"

record world =
  files :: "string \<Rightarrow> file_state"
  tree :: "string \<Rightarrow> entry list option"
  cache_files :: "string \<Rightarrow> cache_entry option"
  cache_writable :: bool
  service :: "nat \<Rightarrow> messages \<Rightarrow> outcome"
  calls :: nat
  sleeps :: "int list"
  now :: string

subsection \<open>\<^verbatim>\<open>CodeReviewer._get_cached_result\<close> and \<^verbatim>\<open>CodeReviewer._cache_result\<close>\<close>

definition get_cached_result :: "CodeReviewConfig \<Rightarrow> world \<Rightarrow> string \<Rightarrow> payload option" where
  "get_cached_result cfg w cache_key =
     (let cache_file = join (cache_dir cfg) (cache_key @ ''.json'')
      in case cache_files w cache_file of
           None \<Rightarrow> None
         | Some Corrupt \<Rightarrow> None
         | Some (Stored r) \<Rightarrow> Some r)"

definition cache_result :: "CodeReviewConfig \<Rightarrow> world \<Rightarrow> string \<Rightarrow> payload \<Rightarrow> world" where
  "cache_result cfg w cache_key result =
     (let cache_file = join (cache_dir cfg) (cache_key @ ''.json'')
      in if cache_writable w
         then w\<lparr>cache_files := (cache_files w)(cache_file \<mapsto> Stored result)\<rparr>
         else w)"

subsection \<open>\<^verbatim>\<open>CodeReviewer._call_openai_api\<close>\<close>

definition msg_invalid_json :: string where
  "msg_invalid_json =
     ''API'' @ utf8 [0x8FD4, 0x56DE, 0x7684, 0x5185, 0x5BB9, 0x683C, 0x5F0F, 0x65E0,
       0x6548]"

definition msg_retry_limit :: string where
  "msg_retry_limit =
     utf8 [0x8FBE, 0x5230, 0x6700, 0x5927, 0x91CD, 0x8BD5, 0x6B21, 0x6570] @ '' ''"

text \<open>\<^verbatim>\<open>time.sleep\<close> raises \<^verbatim>\<open>ValueError\<close> for a negative length. The program calls
  it inside an \<^verbatim>\<open>except\<close> clause, so this exception leaves \<^verbatim>\<open>_call_openai_api\<close>.\<close>

definition time_sleep :: "int \<Rightarrow> world \<Rightarrow> exn + world" where
  "time_sleep secs w =
     (if secs < 0 then Inl (ValueError ''sleep length must be non-negative'')
      else Inr (w\<lparr>sleeps := sleeps w @ [secs]\<rparr>))"

text \<open>The loop \<^verbatim>\<open>for attempt in range(retry_count)\<close>, at \<open>attempt\<close> with \<open>n\<close> attempts
  left; after the loop the function returns the error of the exhausted retries.\<close>

fun call_openai_api_loop ::
  "CodeReviewConfig \<Rightarrow> messages \<Rightarrow> nat \<Rightarrow> nat \<Rightarrow> world \<Rightarrow> (exn + payload) \<times> world" where
  "call_openai_api_loop cfg msgs attempt 0 w =
     (Inr (error_payload (msg_retry_limit @ str_int (retry_count cfg))), w)"
| "call_openai_api_loop cfg msgs attempt (Suc n) w =
     (let w1 = w\<lparr>calls := calls w + 1\<rparr> in
      case service w (calls w) msgs of
        Completion r \<Rightarrow> (Inr r, w1)
      | Malformed body \<Rightarrow> (Inr (error_payload msg_invalid_json), w1)
      | RateLimitError \<Rightarrow>
          (case time_sleep (retry_delay cfg * 2 ^ attempt) w1 of
             Inl e \<Rightarrow> (Inl e, w1)
           | Inr w2 \<Rightarrow> call_openai_api_loop cfg msgs (attempt + 1) n w2)
      | APIError m \<Rightarrow>
          (case time_sleep (retry_delay cfg * 2 ^ attempt) w1 of
             Inl e \<Rightarrow> (Inl e, w1)
           | Inr w2 \<Rightarrow> call_openai_api_loop cfg msgs (attempt + 1) n w2)
      | OtherError m \<Rightarrow> (Inr (error_payload m), w1))"

definition call_openai_api ::
  "CodeReviewConfig \<Rightarrow> world \<Rightarrow> messages \<Rightarrow> (exn + payload) \<times> world" where
  "call_openai_api cfg w msgs = call_openai_api_loop cfg msgs 0 (nat (retry_count cfg)) w"

section \<open>\<^verbatim>\<open>FileAnalyzer\<close>\<close>

subsection \<open>\<^verbatim>\<open>FileAnalyzer.analyze_file\<close>\<close>

text \<open>The variables of the loop over the lines, and the body of the loop.\<close>

record line_counts =
  code_lines :: nat
  comment_lines :: nat
  blank_lines :: nat
  in_multi_comment :: bool

definition single_comment_markers :: "string list" where
  "single_comment_markers = [''#'', ''//'']"

definition multi_comment_start :: string where
  "multi_comment_start = ''/*''"

definition multi_comment_end :: string where
  "multi_comment_end = ''*/''"

definition analyze_line :: "line_counts \<Rightarrow> string \<Rightarrow> line_counts" where
  "analyze_line st line =
     (let stripped_line = strip line in
      if stripped_line = [] then st\<lparr>blank_lines := blank_lines st + 1\<rparr>
      else if in_multi_comment st then
        (let st' = st\<lparr>comment_lines := comment_lines st + 1\<rparr> in
         if contains stripped_line multi_comment_end then st'\<lparr>in_multi_comment := False\<rparr>
         else st')
      else if list_ex (startswith stripped_line) single_comment_markers then
        st\<lparr>comment_lines := comment_lines st + 1\<rparr>
      else if contains stripped_line multi_comment_start then
        (let st' = st\<lparr>comment_lines := comment_lines st + 1\<rparr> in
         if \<not> contains (split_once stripped_line multi_comment_start ! 1) multi_comment_end
         then st'\<lparr>in_multi_comment := True\<rparr>
         else st')
      else st\<lparr>code_lines := code_lines st + 1\<rparr>)"

definition analyze_lines :: "string list \<Rightarrow> line_counts" where
  "analyze_lines lines =
     foldl analyze_line
       \<lparr>code_lines = 0, comment_lines = 0, blank_lines = 0, in_multi_comment = False\<rparr> lines"





definition msg_file_prefix :: string where
  "msg_file_prefix =
     utf8 [0x6587, 0x4EF6] @ '' ''"

definition msg_not_utf8 :: string where
  "msg_not_utf8 =
     '' '' @ utf8 [0x4E0D, 0x662F, 0x6709, 0x6548, 0x7684] @ ''UTF-8'' @ utf8 [0x7F16,
       0x7801, 0x6587, 0x4EF6]"

definition msg_not_found :: string where
  "msg_not_found =
     '' '' @ utf8 [0x4E0D, 0x5B58, 0x5728]"

definition msg_analyze_failed :: string where
  "msg_analyze_failed =
     utf8 [0x5206, 0x6790, 0x6587, 0x4EF6, 0x65F6, 0x53D1, 0x751F, 0x9519, 0x8BEF] @
       '': ''"

definition analyze_file :: "world \<Rightarrow> string \<Rightarrow> payload" where
  "analyze_file w file_path =
     (case files w file_path of
        Readable content file_size \<Rightarrow>
          (let lines = split_char content CHR 0x0A;
               st = analyze_lines lines
           in [(''file_path'', JStr file_path),
               (''file_name'', JStr (basename file_path)),
               (''file_size'', JInt (int file_size)),
               (''line_count'', JInt (int (length lines))),
               (''code_lines'', JInt (int (code_lines st))),
               (''comment_lines'', JInt (int (comment_lines st))),
               (''blank_lines'', JInt (int (blank_lines st))),
               (''estimated_tokens'', JInt (int (length (split_whitespace content)))),
               (''content'', JStr content)])
      | NotUtf8 \<Rightarrow> error_payload (msg_file_prefix @ file_path @ msg_not_utf8)
      | Missing \<Rightarrow> error_payload (msg_file_prefix @ file_path @ msg_not_found)
      | Unreadable e \<Rightarrow> error_payload (msg_analyze_failed @ e))"

subsection \<open>\<^verbatim>\<open>FileAnalyzer.find_files\<close>\<close>




section \<open>\<^verbatim>\<open>CodeReviewer\<close>\<close>

subsection \<open>\<^verbatim>\<open>CodeReviewer._get_file_language\<close>\<close>

definition SUPPORTED_LANGUAGES :: "(string \<times> string list) list" where
  "SUPPORTED_LANGUAGES =
     [(''python'', [''.py'']),
      (''javascript'', [''.js'', ''.jsx'']),
      (''typescript'', [''.ts'', ''.tsx'']),
      (''java'', [''.java'']),
      (''csharp'', [''.cs'']),
      (''go'', [''.go'']),
      (''rust'', [''.rs'']),
      (''cpp'', [''.cpp'', ''.cc'', ''.cxx'', ''.c++'', ''.h'', ''.hpp'']),
      (''c'', [''.c'', ''.h'']),
      (''php'', [''.php'']),
      (''ruby'', [''.rb'']),
      (''swift'', [''.swift'']),
      (''kotlin'', [''.kt'']),
      (''html'', [''.html'', ''.htm'']),
      (''css'', [''.css'']),
      (''scss'', [''.scss'']),
      (''json'', [''.json'']),
      (''yaml'', [''.yaml'', ''.yml'']),
      (''markdown'', [''.md'']),
      (''sql'', [''.sql''])]"

definition LANGUAGE_SPECIFIC_PROMPTS :: "(string \<times> string) list" where
  "LANGUAGE_SPECIFIC_PROMPTS =
     [(''python'',
         utf8 [0x7279, 0x522B, 0x6CE8, 0x610F] @ ''PEP 8'' @ utf8 [0x89C4, 0x8303,
           0x7684, 0x9075, 0x5B88, 0x60C5, 0x51B5, 0xFF0C, 0x5305, 0x62EC, 0x7F29,
           0x8FDB, 0x3001, 0x547D, 0x540D, 0x7EA6, 0x5B9A, 0x3001, 0x5BFC, 0x5165,
           0x987A, 0x5E8F, 0x7B49, 0x3002, 0x68C0, 0x67E5, 0x662F, 0x5426, 0x6709,
           0x4F7F, 0x7528] @ ''Python 3'' @ utf8 [0x7684, 0x65B0, 0x7279, 0x6027,
           0x6765, 0x7B80, 0x5316, 0x4EE3, 0x7801, 0x3002]),
      (''javascript'',
         utf8 [0x7279, 0x522B, 0x6CE8, 0x610F] @ ''ES6+'' @ utf8 [0x7279, 0x6027,
           0x7684, 0x4F7F, 0x7528, 0xFF0C, 0x68C0, 0x67E5, 0x662F, 0x5426, 0x6709,
           0x56DE, 0x8C03, 0x5730, 0x72F1, 0x95EE, 0x9898, 0xFF0C, 0x4EE5, 0x53CA,
           0x5F02, 0x6B65, 0x4EE3, 0x7801, 0x7684, 0x5904, 0x7406, 0x65B9, 0x5F0F,
           0x3002]),
      (''typescript'',
         utf8 [0x7279, 0x522B, 0x6CE8, 0x610F, 0x7C7B, 0x578B, 0x5B9A, 0x4E49, 0x7684,
           0x5B8C, 0x6574, 0x6027, 0x548C, 0x51C6, 0x786E, 0x6027, 0xFF0C, 0x68C0,
           0x67E5, 0x662F, 0x5426, 0x6709, 0x672A, 0x4F7F, 0x7528, 0x7684, 0x53D8,
           0x91CF, 0x6216, 0x5BFC, 0x5165, 0x3002]),
      (''java'',
         utf8 [0x7279, 0x522B, 0x6CE8, 0x610F, 0x5F02, 0x5E38, 0x5904, 0x7406, 0x548C,
           0x8D44, 0x6E90, 0x7BA1, 0x7406, 0xFF0C, 0x68C0, 0x67E5, 0x662F, 0x5426,
           0x6709, 0x5185, 0x5B58, 0x6CC4, 0x6F0F, 0x98CE, 0x9669, 0x3002]),
      (''csharp'',
         utf8 [0x7279, 0x522B, 0x6CE8, 0x610F, 0x7A7A, 0x5F15, 0x7528, 0x95EE, 0x9898,
           0xFF0C, 0x68C0, 0x67E5, 0x662F, 0x5426, 0x6709, 0x9002, 0x5F53, 0x7684] @
           ''null'' @ utf8 [0x68C0, 0x67E5, 0x3002]),
      (''go'',
         utf8 [0x7279, 0x522B, 0x6CE8, 0x610F, 0x9519, 0x8BEF, 0x5904, 0x7406, 0x65B9,
           0x5F0F, 0xFF0C, 0x68C0, 0x67E5, 0x662F, 0x5426, 0x6709] @ ''goroutine'' @
           utf8 [0x6CC4, 0x6F0F, 0x98CE, 0x9669, 0x3002])]"

definition get_file_language :: "string \<Rightarrow> string option" where
  "get_file_language file_path =
     (let ext = lower (snd (splitext file_path))
      in map_option fst (find (\<lambda>(lang, extensions). ext \<in> set extensions) SUPPORTED_LANGUAGES))"

subsection \<open>\<^verbatim>\<open>CodeReviewer.review_file\<close>\<close>

text \<open>
  The prompt is an f-string. Its literal texts are \<open>review_prompt_text_0\<close> to
  \<open>review_prompt_text_9\<close>. Its first four replacement fields are \<^verbatim>\<open>{file_path}\<close>, the
  language line, \<^verbatim>\<open>{file_content}\<close> and \<^verbatim>\<open>{language_prompt}\<close>. The description of the
  JSON answer that follows writes its braces single, as in
  \<^verbatim>\<open>- code_quality: {"rating": ... }\<close>, so each of them is a replacement field too: the
  expression is the string before the first colon (\<^verbatim>\<open>"rating"\<close>, \<^verbatim>\<open>"line"\<close>,
  \<^verbatim>\<open>"score"\<close>, \<^verbatim>\<open>"line"\<close>, \<^verbatim>\<open>"rating"\<close>) and the text from that colon to the closing
  brace is its format specification (\<open>review_prompt_spec_0\<close> to \<open>review_prompt_spec_4\<close>).
\<close>

definition review_prompt_text_0 :: string where
  "review_prompt_text_0 =
     utf8 [0x4F60, 0x662F, 0x4E00, 0x540D, 0x7ECF, 0x9A8C, 0x4E30, 0x5BCC, 0x7684,
       0x4EE3, 0x7801, 0x5BA1, 0x67E5, 0x4E13, 0x5BB6, 0xFF0C, 0x8BF7, 0x5BA1, 0x67E5,
       0x4EE5, 0x4E0B, 0x4EE3, 0x7801, 0x6587, 0x4EF6, 0xFF1A] @
       ''\<newline>\<newline>'' @ utf8 [0x6587, 0x4EF6, 0x8DEF, 0x5F84, 0xFF1A]"

definition review_prompt_text_1 :: string where
  "review_prompt_text_1 =
     ''\<newline>''"

definition review_prompt_text_2 :: string where
  "review_prompt_text_2 =
     ''\<newline>\<newline>'' @ utf8 [0x4EE3, 0x7801, 0x5185, 0x5BB9, 0xFF1A] @
       ''\<newline>'' @ [CHR 0x60, CHR 0x60, CHR 0x60] @ ''\<newline>''"

definition review_prompt_text_3 :: string where
  "review_prompt_text_3 =
     ''\<newline>'' @ [CHR 0x60, CHR 0x60, CHR 0x60] @ ''\<newline>\<newline>'' @
       utf8 [0x8BF7, 0x4ECE, 0x4EE5, 0x4E0B, 0x51E0, 0x4E2A, 0x65B9, 0x9762, 0x8FDB,
       0x884C, 0x5BA1, 0x67E5, 0xFF1A] @ ''\<newline>1. '' @ utf8 [0x4EE3, 0x7801,
       0x8D28, 0x91CF, 0x548C, 0x53EF, 0x8BFB, 0x6027] @ ''\<newline>2. '' @
       utf8 [0x6F5C, 0x5728, 0x7684] @ ''bug'' @ utf8 [0x548C, 0x903B, 0x8F91, 0x95EE,
       0x9898] @ ''\<newline>3. '' @ utf8 [0x6027, 0x80FD, 0x4F18, 0x5316, 0x5EFA,
       0x8BAE] @ ''\<newline>4. '' @ utf8 [0x5B89, 0x5168, 0x6027, 0x8003, 0x8651] @
       ''\<newline>5. '' @ utf8 [0x6700, 0x4F73, 0x5B9E, 0x8DF5, 0x7B26, 0x5408,
       0x6027] @ ''\<newline>6. '' @ utf8 [0x4EE3, 0x7801, 0x590D, 0x6742, 0x5EA6,
       0x5206, 0x6790] @ ''\<newline>7. '' @ utf8 [0x4EE3, 0x7801, 0x91CD, 0x590D,
       0x68C0, 0x6D4B] @ ''\<newline>8. '' @ utf8 [0x4EE3, 0x7801, 0x98CE, 0x683C,
       0x4E00, 0x81F4, 0x6027] @ ''\<newline>\<newline>''"

definition review_prompt_text_4 :: string where
  "review_prompt_text_4 =
     ''\<newline>\<newline>'' @ utf8 [0x8BF7, 0x63D0, 0x4F9B, 0x5177, 0x4F53, 0x7684,
       0x53CD, 0x9988, 0x548C, 0x6539, 0x8FDB, 0x5EFA, 0x8BAE, 0xFF0C, 0x8FD4, 0x56DE,
       0x683C, 0x5F0F, 0x5FC5, 0x987B, 0x662F] @ ''JSON'' @ utf8 [0x5BF9, 0x8C61,
       0xFF0C, 0x5305, 0x542B, 0x4EE5, 0x4E0B, 0x5B57, 0x6BB5, 0xFF1A] @
       ''\<newline>- code_quality: ''"

definition review_prompt_text_5 :: string where
  "review_prompt_text_5 =
     ''\<newline>- potential_issues: [''"

definition review_prompt_text_6 :: string where
  "review_prompt_text_6 =
     '']\<newline>- performance_suggestions: ['' @ utf8 [0x6027, 0x80FD, 0x4F18,
       0x5316, 0x5EFA, 0x8BAE, 0x5217, 0x8868] @
       '']\<newline>- security_considerations: ['' @ utf8 [0x5B89, 0x5168, 0x8003,
       0x8651, 0x5EFA, 0x8BAE, 0x5217, 0x8868] @ '']\<newline>- best_practices: ['' @
       utf8 [0x6700, 0x4F73, 0x5B9E, 0x8DF5, 0x5EFA, 0x8BAE, 0x5217, 0x8868] @
       '']\<newline>- complexity_analysis: ''"

definition review_prompt_text_7 :: string where
  "review_prompt_text_7 =
     ''\<newline>- code_duplication: [''"

definition review_prompt_text_8 :: string where
  "review_prompt_text_8 =
     '']\<newline>- style_consistency: ''"

definition review_prompt_text_9 :: string where
  "review_prompt_text_9 =
     ''\<newline>- summary: '' @ utf8 [0x603B, 0x4F53, 0x603B, 0x7ED3] @
       ''\<newline>\<newline>'' @ utf8 [0x8BF7, 0x786E, 0x4FDD, 0x8FD4, 0x56DE,
       0x7684] @ ''JSON'' @ utf8 [0x53EF, 0x4EE5, 0x88AB, 0x6B63, 0x786E, 0x89E3,
       0x6790, 0xFF0C, 0x4E0D, 0x8981, 0x5305, 0x542B, 0x4EFB, 0x4F55] @ ''JSON'' @
       utf8 [0x4E4B, 0x5916, 0x7684, 0x5185, 0x5BB9, 0x3002]"

definition review_prompt_spec_0 :: string where
  "review_prompt_spec_0 =
     '' '' @ utf8 [0x8BC4, 0x5206] @ ''(1-5), '' @ [CHR 0x22] @ ''comments'' @
       [CHR 0x22] @ '': ['' @ utf8 [0x8BC4, 0x8BBA, 0x5217, 0x8868] @ '']''"

definition review_prompt_spec_1 :: string where
  "review_prompt_spec_1 =
     '' '' @ utf8 [0x884C, 0x53F7] @ '', '' @ [CHR 0x22] @ ''description'' @
       [CHR 0x22] @ '': '' @ utf8 [0x95EE, 0x9898, 0x63CF, 0x8FF0] @ '', '' @
       [CHR 0x22] @ ''severity'' @ [CHR 0x22] @ '': '' @ [CHR 0x22] @
       ''low|medium|high'' @ [CHR 0x22] @ '', '' @ [CHR 0x22] @ ''suggestion'' @
       [CHR 0x22] @ '': '' @ utf8 [0x6539, 0x8FDB, 0x5EFA, 0x8BAE]"

definition review_prompt_spec_2 :: string where
  "review_prompt_spec_2 =
     '' '' @ utf8 [0x590D, 0x6742, 0x5EA6, 0x5206, 0x6570] @ '', '' @ [CHR 0x22] @
       ''hotspots'' @ [CHR 0x22] @ '': ['' @ utf8 [0x70ED, 0x70B9, 0x4EE3, 0x7801,
       0x884C, 0x53F7, 0x5217, 0x8868] @ '']''"

definition review_prompt_spec_3 :: string where
  "review_prompt_spec_3 =
     '' '' @ utf8 [0x884C, 0x53F7] @ '', '' @ [CHR 0x22] @ ''description'' @
       [CHR 0x22] @ '': '' @ utf8 [0x91CD, 0x590D, 0x4EE3, 0x7801, 0x63CF, 0x8FF0]"

definition review_prompt_spec_4 :: string where
  "review_prompt_spec_4 =
     '' '' @ utf8 [0x8BC4, 0x5206] @ ''(1-5), '' @ [CHR 0x22] @ ''issues'' @
       [CHR 0x22] @ '': ['' @ utf8 [0x98CE, 0x683C, 0x95EE, 0x9898, 0x5217, 0x8868] @
       '']''"

definition language_label :: string where
  "language_label =
     utf8 [0x7F16, 0x7A0B, 0x8BED, 0x8A00, 0xFF1A]"

definition system_message_file :: string where
  "system_message_file =
     utf8 [0x4F60, 0x662F, 0x4E00, 0x540D, 0x7ECF, 0x9A8C, 0x4E30, 0x5BCC, 0x7684,
       0x4EE3, 0x7801, 0x5BA1, 0x67E5, 0x4E13, 0x5BB6, 0xFF0C, 0x64C5, 0x957F, 0x591A,
       0x8BED, 0x8A00, 0x4EE3, 0x7801, 0x5206, 0x6790, 0x548C, 0x4F18, 0x5316, 0x3002]"

definition review_file_prompt :: "string \<Rightarrow> string \<Rightarrow> exn + string" where
  "review_file_prompt file_path file_content =
     (let language = get_file_language file_path;
          language_prompt =
            (case language of
               None \<Rightarrow> []
             | Some l \<Rightarrow> (case map_of LANGUAGE_SPECIFIC_PROMPTS l of None \<Rightarrow> [] | Some t \<Rightarrow> t))
      in fstring
           [Lit review_prompt_text_0, Field file_path [],
            Lit review_prompt_text_1,
            Field (case language of None \<Rightarrow> [] | Some l \<Rightarrow> language_label @ l) [],
            Lit review_prompt_text_2, Field file_content [],
            Lit review_prompt_text_3, Field language_prompt [],
            Lit review_prompt_text_4, Field ''rating'' review_prompt_spec_0,
            Lit review_prompt_text_5, Field ''line'' review_prompt_spec_1,
            Lit review_prompt_text_6, Field ''score'' review_prompt_spec_2,
            Lit review_prompt_text_7, Field ''line'' review_prompt_spec_3,
            Lit review_prompt_text_8, Field ''rating'' review_prompt_spec_4,
            Lit review_prompt_text_9])"

text \<open>What follows the prompt in \<^verbatim>\<open>review_file\<close>, and in the same words in
  \<^verbatim>\<open>review_git_diff\<close>: look the key up in the cache, return a cached result that is
  true, else call the service and cache a result that has no \<^verbatim>\<open>error\<close> key.\<close>

definition review_with_prompt ::
  "CodeReviewConfig \<Rightarrow> world \<Rightarrow> string \<Rightarrow> string \<Rightarrow> string \<Rightarrow> (exn + payload) \<times> world" where
  "review_with_prompt cfg w text system_message prompt =
     (let cache_key = get_cache_key text prompt;
          cached_result = get_cached_result cfg w cache_key
      in if cached_result \<noteq> None \<and> cached_result \<noteq> Some [] then (Inr (the cached_result), w)
         else
          (let messages = [(''system'', system_message), (''user'', prompt)]
           in case call_openai_api cfg w messages of
                (Inl e, w1) \<Rightarrow> (Inl e, w1)
              | (Inr result, w1) \<Rightarrow>
                  (Inr result,
                   if \<not> has_key result ''error'' then cache_result cfg w1 cache_key result
                   else w1)))"

definition review_file ::
  "CodeReviewConfig \<Rightarrow> world \<Rightarrow> string \<Rightarrow> string \<Rightarrow> (exn + payload) \<times> world" where
  "review_file cfg w file_path file_content =
     (case review_file_prompt file_path file_content of
        Inl e \<Rightarrow> (Inl e, w)
      | Inr prompt \<Rightarrow> review_with_prompt cfg w file_content system_message_file prompt)"

subsection \<open>\<^verbatim>\<open>CodeReviewer._review_file_wrapper\<close>\<close>

definition review_file_wrapper ::
  "CodeReviewConfig \<Rightarrow> world \<Rightarrow> string \<Rightarrow> (exn + payload) \<times> world" where
  "review_file_wrapper cfg w file_path =
     (let file_info = analyze_file w file_path in
      if has_key file_info ''error'' then (Inr file_info, w)
      else (case map_of file_info ''content'' of
              Some (JStr content) \<Rightarrow> review_file cfg w file_path content
            | _ \<Rightarrow> (Inl (KeyError ''content''), w)))"

subsection \<open>\<^verbatim>\<open>CodeReviewer.batch_review_files\<close>\<close>

text \<open>
  The pool runs one task for every path given; \<^verbatim>\<open>as_completed\<close> hands the tasks back
  in the order \<open>completed\<close> in which they finish, which is some arrangement of the paths
  given. The model runs the tasks one after the other in that order. The loop keeps
  \<^verbatim>\<open>results\<close> and \<^verbatim>\<open>failed_files\<close>.
\<close>

fun batch_loop ::
  "CodeReviewConfig \<Rightarrow> string list \<Rightarrow> (string \<times> json) list \<Rightarrow> string list \<Rightarrow> world
     \<Rightarrow> (string \<times> json) list \<times> string list \<times> world" where
  "batch_loop cfg [] results failed_files w = (results, failed_files, w)"
| "batch_loop cfg (file_path # rest) results failed_files w =
     (case review_file_wrapper cfg w file_path of
        (Inr result, w') \<Rightarrow>
          batch_loop cfg rest (dict_set results file_path (JDict result)) failed_files w'
      | (Inl e, w') \<Rightarrow>
          batch_loop cfg rest
            (dict_set results file_path (JDict (error_payload (str_exn e))))
            (failed_files @ [file_path]) w')"

definition batch_review_files ::
  "CodeReviewConfig \<Rightarrow> world \<Rightarrow> string list \<Rightarrow> string list \<Rightarrow> payload \<times> world" where
  "batch_review_files cfg w file_paths completed =
     (case batch_loop cfg completed [] [] w of
        (results, failed_files, w') \<Rightarrow>
          (let summary =
                 [(''total_files'', JInt (int (length file_paths))),
                  (''successful_reviews'',
                     JInt (int (length results) - int (length failed_files))),
                  (''failed_reviews'', JInt (int (length failed_files))),
                  (''failed_files'', JList (map JStr failed_files)),
                  (''timestamp'', JStr (now w'))]
           in ([(''summary'', JDict summary), (''file_reviews'', JDict results)], w')))"

subsection \<open>The changed files of \<^verbatim>\<open>CodeReviewer.review_git_diff\<close>\<close>

text \<open>The loop of \<^verbatim>\<open>review_git_diff\<close> over the lines of a diff that is not empty; the
  \<^verbatim>\<open>IndexError\<close> of \<^verbatim>\<open>parts[3]\<close> ends it.\<close>

fun changed_files_loop :: "string list \<Rightarrow> string list \<Rightarrow> exn + string list" where
  "changed_files_loop [] changed_files = Inr changed_files"
| "changed_files_loop (line # rest) changed_files =
     (if startswith line ''diff --git'' then
        (let parts = split_char line CHR '' '' in
         if 3 \<le> length parts then
           (case index parts 3 of
              Inl e \<Rightarrow> Inl e
            | Inr part \<Rightarrow>
                changed_files_loop rest (changed_files @ [lstrip_chars part ''a/'']))
         else changed_files_loop rest changed_files)
      else changed_files_loop rest changed_files)"

definition changed_files_of_diff :: "string \<Rightarrow> exn + string list" where
  "changed_files_of_diff diff = changed_files_loop (split_char diff CHR 0x0A) []"

section \<open>Notions used to state the properties\<close>







text \<open>The configuration with the defaults of the fields of \<^verbatim>\<open>CodeReviewConfig\<close>, and a
  world with no file, an empty cache and a service that always answers with the rate
  limit.\<close>

definition default_config :: CodeReviewConfig where
  "default_config =
     \<lparr>model = ''gpt-4o'', temperature = Finite (1 / 5), max_tokens = 4096, api_base = None,
      retry_count = 3, retry_delay = 2, concurrent_workers = 2, cache_dir = ''.cache''\<rparr>"

definition empty_world :: world where
  "empty_world =
     \<lparr>files = (\<lambda>_. Missing), tree = (\<lambda>_. None), cache_files = (\<lambda>_. None),
      cache_writable = True, service = (\<lambda>_ _. RateLimitError), calls = 0, sleeps = [],
      now = ''2025-01-01T00:00:00''\<rparr>"

section \<open>Properties\<close>

subsection \<open>Strings\<close>










subsection \<open>The line classification of \<^verbatim>\<open>analyze_file\<close>\<close>









subsection \<open>\<^verbatim>\<open>find_files\<close>\<close>








subsection \<open>\<^verbatim>\<open>CodeReviewConfig\<close>\<close>

text \<open>
  C9. Constructing a \<^verbatim>\<open>CodeReviewConfig\<close> with a temperature outside the closed interval
  from 0 to 2 (NaN included), a retry count below 0 or a worker count below 1 fails with a
  validation error that names exactly the fields out of bounds and builds no object;
  with every value inside the bounds the object holds the values given, unchanged.
\<close>

theorem new_CodeReviewConfig_validates:
  "(\<not> (float_le (Finite 0) (temperature given) \<and> float_le (temperature given) (Finite 2))
      \<or> retry_count given < 0 \<or> concurrent_workers given < 1
    \<longrightarrow> (\<exists>errs. errs \<noteq> [] \<and> new_CodeReviewConfig given = Inl (ValidationError errs)
           \<and> map fst errs =
               (if float_le (Finite 0) (temperature given) \<and> float_le (temperature given) (Finite 2)
                then [] else [''temperature''])
               @ (if retry_count given < 0 then [''retry_count''] else [])
               @ (if concurrent_workers given < 1 then [''concurrent_workers''] else [])))
   \<and> (float_le (Finite 0) (temperature given) \<and> float_le (temperature given) (Finite 2)
        \<and> 0 \<le> retry_count given \<and> 1 \<le> concurrent_workers given
      \<longrightarrow> new_CodeReviewConfig given = Inr given)"
  by (auto simp: new_CodeReviewConfig_def validate_temperature_def validate_retry_count_def
      validate_concurrent_workers_def field_errors_def Let_def)

theorem new_CodeReviewConfig_validates_witness:
  "new_CodeReviewConfig default_config = Inr default_config
   \<and> (\<exists>errs. errs \<noteq> []
        \<and> new_CodeReviewConfig (default_config\<lparr>temperature := Finite 3, concurrent_workers := 0\<rparr>)
            = Inl (ValidationError errs)
        \<and> map fst errs = [''temperature'', ''concurrent_workers''])
   \<and> (\<exists>errs. errs \<noteq> []
        \<and> new_CodeReviewConfig (default_config\<lparr>temperature := NaN, retry_count := - 1\<rparr>)
            = Inl (ValidationError errs)
        \<and> map fst errs = [''temperature'', ''retry_count''])"
  using new_CodeReviewConfig_validates [of default_config]
    new_CodeReviewConfig_validates
      [of "default_config\<lparr>temperature := Finite 3, concurrent_workers := 0\<rparr>"]
    new_CodeReviewConfig_validates
      [of "default_config\<lparr>temperature := NaN, retry_count := - 1\<rparr>"]
  by (simp add: default_config_def)

subsection \<open>\<^verbatim>\<open>_call_openai_api\<close>\<close>


lemma delay_nonneg: "0 \<le> retry_delay cfg \<Longrightarrow> 0 \<le> retry_delay cfg * 2 ^ a"
  by simp






lemma utf8_Cons: "utf8 (n # ns) = utf8_char n @ utf8 ns"
  by (simp add: utf8_def)







subsection \<open>The cache key\<close>

lemma length_md5: "length (md5 m) = 16"
  by (simp add: md5_def Let_def le_bytes_def split: prod.splits)

lemma length_hexdigest: "length (hexdigest bs) = 2 * length bs"
  by (induction bs) (simp_all add: hexdigest_def)

lemma hex_digit_in: "hex_digit n \<in> set ''0123456789abcdef''"
  unfolding hex_digit_def by (rule nth_mem) simp

lemma set_hexdigest: "set (hexdigest bs) \<subseteq> set ''0123456789abcdef''"
  unfolding hexdigest_def using hex_digit_in by auto

lemma hex_digit_inj:
  assumes "hex_digit a = hex_digit b"
  shows "a mod 16 = b mod 16"
proof -
  have "distinct ''0123456789abcdef''" by simp
  moreover have "a mod 16 < length ''0123456789abcdef''" "b mod 16 < length ''0123456789abcdef''"
    by simp_all
  ultimately show ?thesis
    using assms unfolding hex_digit_def by (simp only: nth_eq_iff_index_eq)
qed

lemma hex_byte_inj:
  fixes x y :: "8 word"
  assumes "hex_digit (unat x div 16) = hex_digit (unat y div 16)"
    and "hex_digit (unat x) = hex_digit (unat y)"
  shows "x = y"
proof -
  have "unat x < 2 ^ LENGTH(8)" "unat y < 2 ^ LENGTH(8)"
    by (rule unsigned_less)+
  then have "unat x < 256" "unat y < 256" by simp_all
  then have "unat x div 16 < 16" "unat y div 16 < 16" by simp_all
  with hex_digit_inj [OF assms(1)] have hi: "unat x div 16 = unat y div 16" by simp
  from hex_digit_inj [OF assms(2)] have lo: "unat x mod 16 = unat y mod 16" .
  have "unat x = 16 * (unat x div 16) + unat x mod 16" by simp
  also have "\<dots> = 16 * (unat y div 16) + unat y mod 16" using hi lo by simp
  also have "\<dots> = unat y" by simp
  finally show ?thesis by (simp add: word_unat_eq_iff)
qed

text \<open>The hex digest determines the digest.\<close>

lemma hexdigest_inj: "hexdigest xs = hexdigest ys \<Longrightarrow> xs = ys"
proof (induction xs arbitrary: ys)
  case Nil
  then show ?case by (cases ys) (simp_all add: hexdigest_def)
next
  case (Cons x xs)
  then obtain y ys' where ys: "ys = y # ys'" by (cases ys) (auto simp: hexdigest_def)
  from Cons.prems have h: "hex_digit (unat x div 16) = hex_digit (unat y div 16)"
      "hex_digit (unat x) = hex_digit (unat y)" "hexdigest xs = hexdigest ys'"
    unfolding ys by (simp_all add: hexdigest_def)
  from hex_byte_inj [OF h(1,2)] Cons.IH [OF h(3)] show ?case by (simp add: ys)
qed

text \<open>
  C6, as amended. The cache key is a function of the text \<^verbatim>\<open>content\<close>, the separator
  line \<^verbatim>\<open>---\<close> and \<^verbatim>\<open>prompt\<close> joined, and of nothing else: it always has 32 characters,
  all of them lower-case hexadecimal digits, and two pairs have the same key exactly when
  the MD5 digests of their joined texts agree. Identical pairs therefore always have the
  same key, and so have different pairs whose joined texts are the same.
\<close>

theorem get_cache_key_fingerprint:
  "length (get_cache_key content prompt) = 32
   \<and> set (get_cache_key content prompt) \<subseteq> set ''0123456789abcdef''
   \<and> (get_cache_key content prompt = get_cache_key content' prompt'
        \<longleftrightarrow> md5 (map of_char (content @ ''\<newline>---\<newline>'' @ prompt))
            = md5 (map of_char (content' @ ''\<newline>---\<newline>'' @ prompt')))
   \<and> (content @ ''\<newline>---\<newline>'' @ prompt = content' @ ''\<newline>---\<newline>'' @ prompt'
        \<longrightarrow> get_cache_key content prompt = get_cache_key content' prompt')"
proof -
  have "get_cache_key content prompt = get_cache_key content' prompt'
        \<longleftrightarrow> md5 (map of_char (content @ ''\<newline>---\<newline>'' @ prompt))
            = md5 (map of_char (content' @ ''\<newline>---\<newline>'' @ prompt'))"
    unfolding get_cache_key_def md5_hexdigest_def by (auto dest: hexdigest_inj)
  moreover have "content @ ''\<newline>---\<newline>'' @ prompt = content' @ ''\<newline>---\<newline>'' @ prompt'
        \<longrightarrow> get_cache_key content prompt = get_cache_key content' prompt'"
    by (simp add: get_cache_key_def)
  moreover have "length (get_cache_key content prompt) = 32"
    by (simp add: get_cache_key_def md5_hexdigest_def length_hexdigest length_md5)
  moreover have "set (get_cache_key content prompt) \<subseteq> set ''0123456789abcdef''"
    unfolding get_cache_key_def md5_hexdigest_def by (rule set_hexdigest)
  ultimately show ?thesis by blast
qed

theorem get_cache_key_fingerprint_witness:
  "''x'' @ ''\<newline>---\<newline>'' @ ''y\<newline>---\<newline>z'' = ''x\<newline>---\<newline>y'' @ ''\<newline>---\<newline>'' @ ''z''
   \<and> get_cache_key ''x'' ''y\<newline>---\<newline>z'' = get_cache_key ''x\<newline>---\<newline>y'' ''z''
   \<and> length (get_cache_key ''x'' ''y\<newline>---\<newline>z'') = 32"
proof -
  have e: "''x'' @ ''\<newline>---\<newline>'' @ ''y\<newline>---\<newline>z'' = ''x\<newline>---\<newline>y'' @ ''\<newline>---\<newline>'' @ ''z''"
    by simp
  from get_cache_key_fingerprint [of "''x''" "''y\<newline>---\<newline>z''" "''x\<newline>---\<newline>y''" "''z''"] e
  show ?thesis by blast
qed

text \<open>Two different pairs of a content and a prompt that always have the same key,
  whatever the hash function does: the separator may stand in the content or in the
  prompt.\<close>

theorem get_cache_key_collision:
  "(''a\<newline>---\<newline>b'', ''c'') \<noteq> (''a'', ''b\<newline>---\<newline>c'')
   \<and> get_cache_key ''a\<newline>---\<newline>b'' ''c'' = get_cache_key ''a'' ''b\<newline>---\<newline>c''"
  by (simp add: get_cache_key_def)

subsection \<open>The prompt of \<^verbatim>\<open>review_file\<close>\<close>

lemma format_str_empty: "format_str v [] = Inr v"
  by (simp add: format_str_def)

text \<open>A specification that starts with a space followed by two more characters, the
  first of which is no part of the format syntax, is invalid.\<close>

lemma accept_no: "\<not> P c \<Longrightarrow> accept P (c # r) = (None, c # r)"
  by (simp add: accept_def)

lemma accept_yes: "P c \<Longrightarrow> accept P (c # r) = (Some c, r)"
  by (simp add: accept_def)

lemma get_integer_none: "\<not> isdigit c \<Longrightarrow> get_integer (c # r) = (None, c # r)"
  by (simp add: get_integer_def)

lemma format_str_invalid:
  assumes "\<not> is_alignment_token c" "\<not> isdigit c"
    "c \<noteq> CHR ''z''" "c \<noteq> CHR ''#''" "c \<noteq> CHR '',''" "c \<noteq> CHR ''_''" "c \<noteq> CHR ''.''"
  shows "format_str v (CHR '' '' # c # d # rest)
           = Inl (invalid_format_specifier (CHR '' '' # c # d # rest))"
proof -
  have z: "c \<noteq> CHR ''0''" using assms(2) by (auto simp: isdigit_def)
  have sign: "accept is_sign_element (CHR '' '' # c # d # rest) = (Some CHR '' '', c # d # rest)"
    by (rule accept_yes) (simp add: is_sign_element_def)
  have none: "\<And>x. c \<noteq> x \<Longrightarrow> accept (\<lambda>y. y = x) (c # d # rest) = (None, c # d # rest)"
    by (rule accept_no) simp
  have int: "get_integer (c # d # rest) = (None, c # d # rest)"
    using assms(2) by (rule get_integer_none)
  show ?thesis
    using assms(1)
    by (simp add: format_str_def is_alignment_token_def sign int
        none [OF assms(3)] none [OF assms(4)] none [OF assms(5)] none [OF assms(6)]
        none [OF assms(7)] none [OF z])
qed

lemma review_prompt_spec_0_head:
  "\<exists>d rest. review_prompt_spec_0 = CHR '' '' # CHR 0xE8 # d # rest"
  by (simp add: review_prompt_spec_0_def utf8_Cons utf8_char_def char_of_def bit_simps)

text \<open>The first single brace of the prompt is read as the replacement field
  \<^verbatim>\<open>{"rating": ...}\<close>; its format specification is invalid.\<close>

lemma format_rating:
  "format_str v review_prompt_spec_0 = Inl (invalid_format_specifier review_prompt_spec_0)"
proof -
  from review_prompt_spec_0_head obtain d rest
    where e: "review_prompt_spec_0 = CHR '' '' # CHR 0xE8 # d # rest" by blast
  show ?thesis
    unfolding e
    by (rule format_str_invalid) (simp_all add: is_alignment_token_def isdigit_def)
qed

text \<open>So building the prompt always raises \<^verbatim>\<open>ValueError\<close>, whatever the path and
  the content are, and \<^verbatim>\<open>review_file\<close> raises it before it looks at the cache or calls
  the service.\<close>

lemma review_file_prompt_raises:
  "review_file_prompt file_path file_content
     = Inl (invalid_format_specifier review_prompt_spec_0)"
  by (simp add: review_file_prompt_def Let_def format_str_empty format_rating)

lemma review_file_raises:
  "review_file cfg w file_path file_content
     = (Inl (invalid_format_specifier review_prompt_spec_0), w)"
  by (simp add: review_file_def review_file_prompt_raises)

subsection \<open>\<^verbatim>\<open>_review_file_wrapper\<close> and \<^verbatim>\<open>batch_review_files\<close>\<close>

lemma has_key_error_payload: "has_key (error_payload m) ''error''"
  by (simp add: has_key_def error_payload_def)

lemma review_file_wrapper_cases:
  "review_file_wrapper cfg w file_path =
     (case files w file_path of
        Readable content n \<Rightarrow> (Inl (invalid_format_specifier review_prompt_spec_0), w)
      | _ \<Rightarrow> (Inr (analyze_file w file_path), w))"
  by (cases "files w file_path")
    (simp_all add: review_file_wrapper_def analyze_file_def Let_def has_key_def
      error_payload_def review_file_raises)

text \<open>The loop of the batch: every readable file ends in \<^verbatim>\<open>failed_files\<close> with the
  text of the exception as its result, every other file keeps the error result of
  \<^verbatim>\<open>analyze_file\<close> and is not counted as failed; the world does not change.\<close>

lemma batch_loop_result:
  "batch_loop cfg paths results failed_files w =
     (foldl (\<lambda>d p. dict_set d p
               (JDict (case files w p of
                         Readable content n \<Rightarrow>
                           error_payload (str_exn (invalid_format_specifier review_prompt_spec_0))
                       | _ \<Rightarrow> analyze_file w p)))
        results paths,
      failed_files @ filter (\<lambda>p. case files w p of Readable content n \<Rightarrow> True | _ \<Rightarrow> False) paths,
      w)"
proof (induction paths arbitrary: results failed_files)
  case Nil
  show ?case by simp
next
  case (Cons p paths)
  show ?case
    by (cases "files w p") (simp_all add: review_file_wrapper_cases Cons.IH)
qed

text \<open>
  C1. A batch of three paths, two of them readable and one missing, with a service that
  would answer every request. The specification promises one error result, for the
  missing file, \<^verbatim>\<open>failed_reviews = 1\<close>, \<^verbatim>\<open>successful_reviews = 2\<close> and the missing file
  in \<^verbatim>\<open>failed_files\<close>. The program returns three error results, counts the two readable
  files as failed and the missing file as successful, and never calls the service.
\<close>

theorem batch_review_one_unreadable:
  "batch_review_files default_config
     (empty_world\<lparr>files := (\<lambda>p. if p = ''a.py'' then Readable ''x = 1'' 5
                                 else if p = ''b.py'' then Readable ''y = 2'' 5 else Missing),
                  service := (\<lambda>_ _. Completion [(''summary'', JStr ''fine'')])\<rparr>)
     [''a.py'', ''missing.py'', ''b.py''] [''a.py'', ''missing.py'', ''b.py'']
   = ([(''summary'',
          JDict [(''total_files'', JInt 3),
                 (''successful_reviews'', JInt 1),
                 (''failed_reviews'', JInt 2),
                 (''failed_files'', JList [JStr ''a.py'', JStr ''b.py'']),
                 (''timestamp'', JStr ''2025-01-01T00:00:00'')]),
       (''file_reviews'',
          JDict [(''a.py'', JDict (error_payload
                    (str_exn (invalid_format_specifier review_prompt_spec_0)))),
                 (''missing.py'', JDict (error_payload
                    (msg_file_prefix @ ''missing.py'' @ msg_not_found))),
                 (''b.py'', JDict (error_payload
                    (str_exn (invalid_format_specifier review_prompt_spec_0))))])],
      empty_world\<lparr>files := (\<lambda>p. if p = ''a.py'' then Readable ''x = 1'' 5
                                 else if p = ''b.py'' then Readable ''y = 2'' 5 else Missing),
                  service := (\<lambda>_ _. Completion [(''summary'', JStr ''fine'')])\<rparr>)"
  by (simp add: batch_review_files_def batch_loop_result analyze_file_def empty_world_def)

subsection \<open>The changed files of a diff\<close>

text \<open>
  C2. The header \<^verbatim>\<open>diff --git a/src/app.py b/src/app.py\<close> splits at its spaces into four
  parts; the program takes \<^verbatim>\<open>parts[3]\<close>, the new-file token, and \<^verbatim>\<open>lstrip('a/')\<close>
  removes leading characters \<^verbatim>\<open>a\<close> and \<^verbatim>\<open>/\<close>, of which \<^verbatim>\<open>b/src/app.py\<close> has none: the
  list holds \<^verbatim>\<open>b/src/app.py\<close>, not the bare path \<^verbatim>\<open>src/app.py\<close>. A header printed
  without prefixes loses the leading \<^verbatim>\<open>a\<close> of \<^verbatim>\<open>app.py\<close>, and a header of three parts
  passes the test \<^verbatim>\<open>len(parts) >= 3\<close> and raises \<^verbatim>\<open>IndexError\<close>.
\<close>

theorem changed_files_keep_new_prefix:
  "changed_files_of_diff
     ''diff --git a/src/app.py b/src/app.py\<newline>index 83db48f..bf2a4c1 100644\<newline>--- a/src/app.py\<newline>+++ b/src/app.py\<newline>@@ -1 +1 @@''
     = Inr [''b/src/app.py'']
   \<and> changed_files_of_diff ''diff --git app.py app.py'' = Inr [''pp.py'']
   \<and> changed_files_of_diff ''diff --git a/app.py'' = Inl (IndexError ''list index out of range'')"
  by (simp add: changed_files_of_diff_def startswith_def index_def lstrip_chars_def)

subsection \<open>Reviews never reach the cache or the service\<close>

text \<open>
  C3. Reviewing a file twice, with an empty cache that can be written and a service that
  would answer the request with a result: the first call raises \<^verbatim>\<open>ValueError\<close> while it
  builds the prompt, stores nothing and leaves the world as it was, and so does the
  second; no result is ever cached or returned from the cache.
\<close>

theorem review_file_twice_never_caches:
  "review_file default_config
     (empty_world\<lparr>service := (\<lambda>_ _. Completion [(''summary'', JStr ''fine'')])\<rparr>)
     ''a.py'' ''x = 1''
   = (Inl (invalid_format_specifier review_prompt_spec_0),
      empty_world\<lparr>service := (\<lambda>_ _. Completion [(''summary'', JStr ''fine'')])\<rparr>)
   \<and> cache_files (snd (review_file default_config
        (snd (review_file default_config
           (empty_world\<lparr>service := (\<lambda>_ _. Completion [(''summary'', JStr ''fine'')])\<rparr>)
           ''a.py'' ''x = 1''))
        ''a.py'' ''x = 1'')) = (\<lambda>_. None)
   \<and> fst (review_file default_config
        (snd (review_file default_config
           (empty_world\<lparr>service := (\<lambda>_ _. Completion [(''summary'', JStr ''fine'')])\<rparr>)
           ''a.py'' ''x = 1''))
        ''a.py'' ''x = 1'') = Inl (invalid_format_specifier review_prompt_spec_0)"
  by (simp add: review_file_raises empty_world_def)

text \<open>
  C5. A service whose every answer is a body that is not JSON. Called directly,
  \<^verbatim>\<open>_call_openai_api\<close> returns the error of the invalid format after one request and
  no sleep. A review never comes that far: \<^verbatim>\<open>review_file\<close> raises while it builds
  the prompt, so invoking it, once or again, makes no request to the service.
\<close>

theorem malformed_response_review:
  "call_openai_api default_config (empty_world\<lparr>service := (\<lambda>_ _. Malformed ''<html>'')\<rparr>) msgs
     = (Inr (error_payload msg_invalid_json),
        empty_world\<lparr>service := (\<lambda>_ _. Malformed ''<html>''), calls := 1\<rparr>)
   \<and> review_file default_config (empty_world\<lparr>service := (\<lambda>_ _. Malformed ''<html>'')\<rparr>)
        ''a.py'' ''x = 1''
     = (Inl (invalid_format_specifier review_prompt_spec_0),
        empty_world\<lparr>service := (\<lambda>_ _. Malformed ''<html>'')\<rparr>)
   \<and> calls (empty_world\<lparr>service := (\<lambda>_ _. Malformed ''<html>'')\<rparr>) = 0"
  by (simp add: review_file_raises call_openai_api_def default_config_def empty_world_def
      numeral_3_eq_3 Let_def)

text \<open>
  C10. The configuration accepts \<^verbatim>\<open>retry_count = 0\<close>, and \<^verbatim>\<open>_call_openai_api\<close> then
  makes no request and returns the error of the exhausted retries. A review of a file
  under this configuration does not resolve to that error result, nor to any result: it
  raises \<^verbatim>\<open>ValueError\<close> while it builds the prompt.
\<close>

theorem retry_count_zero_review:
  "new_CodeReviewConfig (default_config\<lparr>retry_count := 0\<rparr>) = Inr (default_config\<lparr>retry_count := 0\<rparr>)
   \<and> call_openai_api (default_config\<lparr>retry_count := 0\<rparr>) w msgs
       = (Inr (error_payload (msg_retry_limit @ ''0'')), w)
   \<and> review_file (default_config\<lparr>retry_count := 0\<rparr>) w file_path file_content
       = (Inl (invalid_format_specifier review_prompt_spec_0), w)"
  by (simp add: review_file_raises call_openai_api_def default_config_def
      new_CodeReviewConfig_def validate_temperature_def validate_retry_count_def
      validate_concurrent_workers_def str_int_def char_of_def bit_simps)

subsection \<open>What \<^verbatim>\<open>review_file\<close> does after the prompt\<close>

text \<open>The steps of \<^verbatim>\<open>review_file\<close> that follow the prompt are never reached; for a
  prompt that is given, they keep the cache discipline of the specification.\<close>

lemma call_openai_api_loop_keeps:
  "cache_files (snd (call_openai_api_loop cfg msgs a n w)) = cache_files w
   \<and> cache_writable (snd (call_openai_api_loop cfg msgs a n w)) = cache_writable w
   \<and> calls w \<le> calls (snd (call_openai_api_loop cfg msgs a n w))"
proof (induction n arbitrary: a w)
  case 0
  show ?case by simp
next
  case (Suc n)
  let ?w2 = "w\<lparr>calls := calls w + 1, sleeps := sleeps w @ [retry_delay cfg * 2 ^ a]\<rparr>"
  from Suc [of "a + 1" ?w2] show ?case
    by (cases "service w (calls w) msgs") (auto simp: Let_def time_sleep_def)
qed

lemma call_openai_api_keeps:
  assumes "call_openai_api cfg w msgs = (r, w1)"
  shows "cache_files w1 = cache_files w" "cache_writable w1 = cache_writable w"
    "calls w \<le> calls w1"
  using call_openai_api_loop_keeps [of cfg msgs 0 "nat (retry_count cfg)" w] assms
  by (simp_all add: call_openai_api_def)

text \<open>A result with an \<^verbatim>\<open>error\<close> key is not written to the cache.\<close>

lemma review_with_prompt_error_not_cached:
  assumes "review_with_prompt cfg w text system_message prompt = (Inr r, w1)"
    and "has_key r ''error''"
  shows "cache_files w1 = cache_files w"
proof (cases "get_cached_result cfg w (get_cache_key text prompt) \<noteq> None
    \<and> get_cached_result cfg w (get_cache_key text prompt) \<noteq> Some []")
  case True
  with assms(1) show ?thesis by (simp add: review_with_prompt_def Let_def)
next
  case False
  obtain r' w' where c: "call_openai_api cfg w [(''system'', system_message), (''user'', prompt)]
      = (r', w')"
    by (cases "call_openai_api cfg w [(''system'', system_message), (''user'', prompt)]")
  with False assms have "w1 = w'"
    by (cases r') (auto simp: review_with_prompt_def Let_def)
  with call_openai_api_keeps(1) [OF c] show ?thesis by simp
qed

text \<open>A result that has no \<^verbatim>\<open>error\<close> key and is not empty, once returned with a cache
  that can be written, is returned again from the cache without a call of the service.\<close>

lemma review_with_prompt_round_trip:
  assumes "cache_writable w"
    and "review_with_prompt cfg w text system_message prompt = (Inr r, w1)"
    and "\<not> has_key r ''error''" "r \<noteq> []"
  shows "review_with_prompt cfg w1 text system_message prompt = (Inr r, w1)"
proof (cases "get_cached_result cfg w (get_cache_key text prompt) \<noteq> None
    \<and> get_cached_result cfg w (get_cache_key text prompt) \<noteq> Some []")
  case True
  with assms(2) have "w1 = w" by (simp add: review_with_prompt_def Let_def)
  with assms(2) show ?thesis by simp
next
  case False
  obtain r' w' where c: "call_openai_api cfg w [(''system'', system_message), (''user'', prompt)]
      = (r', w')"
    by (cases "call_openai_api cfg w [(''system'', system_message), (''user'', prompt)]")
  with False assms have w1: "w1 = cache_result cfg w' (get_cache_key text prompt) r"
    by (cases r') (auto simp: review_with_prompt_def Let_def)
  have "cache_writable w'" using call_openai_api_keeps(2) [OF c] assms(1) by simp
  then have "get_cached_result cfg w1 (get_cache_key text prompt) = Some r"
    unfolding w1 by (simp add: get_cached_result_def cache_result_def Let_def)
  with assms(4) show ?thesis by (simp add: review_with_prompt_def Let_def)
qed

text \<open>With no attempt allowed, a miss of the cache gives the error of the exhausted
  retries and leaves the world as it was.\<close>

lemma review_with_prompt_no_attempts:
  assumes "retry_count cfg \<le> 0"
    and "get_cached_result cfg w (get_cache_key text prompt) = None
         \<or> get_cached_result cfg w (get_cache_key text prompt) = Some []"
  shows "review_with_prompt cfg w text system_message prompt
           = (Inr (error_payload (msg_retry_limit @ str_int (retry_count cfg))), w)"
  using assms
  by (auto simp: review_with_prompt_def call_openai_api_def Let_def has_key_error_payload)

end
